theory Spec2Isabelle
  imports Complex_Main
begin

section \<open>JavaScript values, strings and numbers\<close>

text \<open>
  The values the endpoints handle. A number is what \<^verbatim>\<open>parseInt\<close> returns: \<^verbatim>\<open>NaN\<close> or an
  integer. \<open>Num i\<close> is the number \<open>i\<close> exactly when the magnitude of \<open>i\<close> is at most \<open>2^53\<close>;
  beyond that JavaScript holds the nearest double (an infinity at the far end) and prints it,
  from \<open>10^21\<close> on, in exponent notation, and \<open>Num i\<close> stands for that double. A comparison
  with 100, the only one the handlers make, is the same for \<open>i\<close> and for its double. The
  theorems that state the value of an id bound it by \<open>max_safe\<close>, and those that state its
  text are about ids from 0 to 100.
  Characters are 8-bit, so the white space of \<^verbatim>\<open>trim\<close> and \<^verbatim>\<open>parseInt\<close> is the part of
  ECMAScript's WhiteSpace and LineTerminator below 256.
\<close>

datatype number = NaN | Num int

definition max_safe :: nat where
  "max_safe = 2 ^ 53"

datatype jsval =
    JUndefined
  | JNull
  | JBool bool
  | JNumber number
  | JStr string
  | JObj "(string \<times> jsval) list"

type_synonym jsobj = "(string \<times> jsval) list"

text \<open>Reading a property: \<^verbatim>\<open>obj.k\<close> is \<^verbatim>\<open>undefined\<close> when the object has no such key.\<close>

definition get_prop :: "jsobj \<Rightarrow> string \<Rightarrow> jsval" where
  "get_prop obj k = (case map_of obj k of None \<Rightarrow> JUndefined | Some v \<Rightarrow> v)"

definition is_digit :: "char \<Rightarrow> bool" where
  "is_digit c = (c \<in> set ''0123456789'')"

definition is_space :: "char \<Rightarrow> bool" where
  "is_space c = ((of_char c :: nat) \<in> {9, 10, 11, 12, 13, 32, 160})"

definition digit_of :: "char \<Rightarrow> nat" where
  "digit_of c = of_char c - 48"

definition digit_char :: "nat \<Rightarrow> char" where
  "digit_char d = ''0123456789'' ! d"

text \<open>\<^verbatim>\<open>String.prototype.trim\<close>.\<close>

definition trim :: "string \<Rightarrow> string" where
  "trim s = rev (dropWhile is_space (rev (dropWhile is_space s)))"

text \<open>\<^verbatim>\<open>/\d+/.test(s)\<close>: the pattern has no anchors, so it looks for a digit anywhere.\<close>

definition regex_digits_test :: "string \<Rightarrow> bool" where
  "regex_digits_test s = list_ex is_digit s"

text \<open>The decimal value of a run of digits, most significant first.\<close>

fun digits_value :: "nat \<Rightarrow> string \<Rightarrow> nat" where
  "digits_value acc [] = acc"
| "digits_value acc (c # cs) = digits_value (10 * acc + digit_of c) cs"

text \<open>
  \<^verbatim>\<open>parseInt(s, 10)\<close>: skip leading white space, read a sign, take the longest prefix of
  digits; \<^verbatim>\<open>NaN\<close> when that prefix is empty. What follows the digits is ignored.
\<close>

definition parseInt10 :: "string \<Rightarrow> number" where
  "parseInt10 s =
     (let t = dropWhile is_space s;
          neg = (t \<noteq> [] \<and> hd t = CHR ''-'');
          u = (if t \<noteq> [] \<and> (hd t = CHR ''-'' \<or> hd t = CHR ''+'') then tl t else t);
          z = takeWhile is_digit u
      in if z = [] then NaN
         else Num ((if neg then - 1 else 1) * int (digits_value 0 z)))"

text \<open>\<^verbatim>\<open>String(n)\<close> for a natural number and for a value (as a template literal does).\<close>

fun string_of_nat :: "nat \<Rightarrow> string" where
  "string_of_nat n =
     (if n < 10 then [digit_char n]
      else string_of_nat (n div 10) @ [digit_char (n mod 10)])"

declare string_of_nat.simps [simp del]

definition string_of_int :: "int \<Rightarrow> string" where
  "string_of_int i = (if i < 0 then CHR ''-'' # string_of_nat (nat (- i)) else string_of_nat (nat i))"

fun to_string :: "jsval \<Rightarrow> string" where
  "to_string JUndefined = ''undefined''"
| "to_string JNull = ''null''"
| "to_string (JBool b) = (if b then ''true'' else ''false'')"
| "to_string (JNumber NaN) = ''NaN''"
| "to_string (JNumber (Num i)) = string_of_int i"
| "to_string (JStr s) = s"
| "to_string (JObj kvs) = ''[object Object]''"

text \<open>\<^verbatim>\<open>!!v\<close>: the truthiness an \<^verbatim>\<open>if\<close> tests.\<close>

fun truthy :: "jsval \<Rightarrow> bool" where
  "truthy JUndefined = False"
| "truthy JNull = False"
| "truthy (JBool b) = b"
| "truthy (JNumber NaN) = False"
| "truthy (JNumber (Num i)) = (i \<noteq> 0)"
| "truthy (JStr s) = (s \<noteq> [])"
| "truthy (JObj kvs) = True"

text \<open>\<^verbatim>\<open>x > k\<close> for a number \<^verbatim>\<open>x\<close>: every comparison with \<^verbatim>\<open>NaN\<close> is false.\<close>

fun js_gt :: "number \<Rightarrow> int \<Rightarrow> bool" where
  "js_gt NaN k = False"
| "js_gt (Num i) k = (k < i)"

section \<open>Safe-execution helpers\<close>

text \<open>
  What running a function (or awaiting a promise) comes to: it returns a value, or it throws,
  and the failure has a message.
\<close>

datatype 'a outcome = Returns 'a | Throws string

text \<open>
  Modelled from the spec: the bodies of \<^verbatim>\<open>safe\<close> and \<^verbatim>\<open>safeAsync\<close> (exported from
  \<^verbatim>\<open>src/utils/catcher\<close>) are not among the sources; only their signatures and the interface
  \<^verbatim>\<open>SafeReturn<T> { ok: boolean; data: T | string }\<close> are. The behaviour follows the spec ("any
  failure inside fn is caught and converted to the error branch with a string description");
  the shape of the result is the declared interface, whose one payload property \<^verbatim>\<open>data\<close> holds
  the value or the message, as every caller in the sources reads it.
\<close>

definition safe :: "(unit \<Rightarrow> jsval outcome) \<Rightarrow> jsobj" where
  "safe fn =
     (case fn () of
        Returns v \<Rightarrow> [(''ok'', JBool True), (''data'', v)]
      | Throws message \<Rightarrow> [(''ok'', JBool False), (''data'', JStr message)])"

text \<open>
  Modelled from the spec: the asynchronous counterpart, "with identical contract over a
  suspending operation"; awaiting the promise either gives its value or its rejection.
\<close>

definition safeAsync :: "(unit \<Rightarrow> jsval outcome) \<Rightarrow> jsobj" where
  "safeAsync fn =
     (case fn () of
        Returns v \<Rightarrow> [(''ok'', JBool True), (''data'', v)]
      | Throws message \<Rightarrow> [(''ok'', JBool False), (''data'', JStr message)])"

text \<open>Two functions to wrap: one returns the number 1, one throws with the message "boom".\<close>

definition returns_one :: "unit \<Rightarrow> jsval outcome" where
  "returns_one u = Returns (JNumber (Num 1))"

definition throws_boom :: "unit \<Rightarrow> jsval outcome" where
  "throws_boom u = Throws ''boom''"

section \<open>Requests, responses and the endpoint pipeline\<close>

datatype http_method = Get | Post | Put | Patch | Delete

record request =
  req_method :: http_method
  req_path :: "string list"
  req_query :: jsobj
  req_body :: jsobj

text \<open>A validation issue: the field it is about and the validator's code for it.\<close>

datatype issue_code = invalid_type | invalid_format | too_small | invalid_value

datatype issue = Issue string issue_code

text \<open>What a handler or a middleware throws: \<^verbatim>\<open>createHttpError(code, message)\<close>, or anything else.\<close>

datatype fault = HttpError nat string | OtherError string

text \<open>The error kinds of the pipeline and the status code each is answered with.\<close>

datatype failure =
    NotFound
  | MethodNotAllowed
  | ValidationError "issue list"
  | HandlerSignaledError nat string
  | UnexpectedFault
  | OutputContractViolation

fun statusCode :: "failure \<Rightarrow> nat" where
  "statusCode NotFound = 404"
| "statusCode MethodNotAllowed = 405"
| "statusCode (ValidationError issues) = 400"
| "statusCode (HandlerSignaledError code message) = code"
| "statusCode UnexpectedFault = 500"
| "statusCode OutputContractViolation = 500"

text \<open>
  A response is a success with its status and the body the output schema produced, or one of
  the failures. The factory is given the library's default result handler, which is not among
  the sources: the envelope it puts around the body or the failure is not modelled.
\<close>

datatype response = Success nat jsobj | Failure failure

fun status_of :: "response \<Rightarrow> nat" where
  "status_of (Success code body) = code"
| "status_of (Failure f) = statusCode f"

text \<open>
  The environment the process runs in, the value of \<^verbatim>\<open>NODE_ENV\<close>: start-up (below) lets the
  server run under these two values only.
\<close>

datatype environment = production | development

text \<open>
  \<^verbatim>\<open>createHttpError(code, message)\<close> marks an error of status 500 or above as not exposed.
  \<open>status_text\<close> is the message the same call gives with no message of its own: the name of
  the status, and for a server-error status with no name that of 500.
\<close>

definition expose :: "nat \<Rightarrow> bool" where
  "expose code = (code < 500)"

definition status_text :: "nat \<Rightarrow> string" where
  "status_text code =
     (if code = 501 then ''Not Implemented''
      else if code = 502 then ''Bad Gateway''
      else if code = 503 then ''Service Unavailable''
      else if code = 504 then ''Gateway Timeout''
      else if code = 505 then ''HTTP Version Not Supported''
      else if code = 506 then ''Variant Also Negotiates''
      else if code = 507 then ''Insufficient Storage''
      else if code = 508 then ''Loop Detected''
      else if code = 509 then ''Bandwidth Limit Exceeded''
      else if code = 510 then ''Not Extended''
      else if code = 511 then ''Network Authentication Required''
      else ''Internal Server Error'')"

text \<open>
  Modelled from the spec: a signalled HTTP error is answered with its own status and message,
  any other fault with 500. The answer is written by the library's default result handler,
  which the factory is given and which is not among the sources: when the process runs in
  production, it sends, for an error that is not exposed, the text of the status in place of
  the error's message.
\<close>

definition public_message :: "environment \<Rightarrow> nat \<Rightarrow> string \<Rightarrow> string" where
  "public_message mode code message =
     (if mode = production \<and> \<not> expose code then status_text code else message)"

fun signal :: "environment \<Rightarrow> fault \<Rightarrow> response" where
  "signal mode (HttpError code message) =
     Failure (HandlerSignaledError code (public_message mode code message))"
| "signal mode (OtherError message) = Failure UnexpectedFault"

text \<open>
  Modelled from the spec: what the pipeline makes of the handler's result. A fault is answered
  as above; a value is serialised by the output schema and sent with status 200, and a value
  the schema refuses is an internal error.
\<close>

definition respond ::
  "environment \<Rightarrow> ('o \<Rightarrow> issue list + jsobj) \<Rightarrow> fault + 'o \<Rightarrow> response" where
  "respond mode output result =
     (case result of
        Inl e \<Rightarrow> signal mode e
      | Inr out \<Rightarrow>
          (case output out of
             Inl issues \<Rightarrow> Failure OutputContractViolation
           | Inr body \<Rightarrow> Success 200 body))"

text \<open>
  Modelled from the spec: the pipeline every endpoint built by the factory follows is the
  HTTP-integration library's, not the repository's. Its steps are the spec's: the raw input is
  validated and transformed by the input schema (a failure is a validation error, and the
  handler does not run); the middleware contributes the context (its failure ends the
  request); the handler runs on the validated input and the context.
\<close>

definition execute ::
  "(jsobj \<Rightarrow> issue list + 'i) \<Rightarrow> (request \<Rightarrow> fault + 'c) \<Rightarrow> ('i \<Rightarrow> 'c \<Rightarrow> fault + 'o) \<Rightarrow>
   ('o \<Rightarrow> issue list + jsobj) \<Rightarrow> environment \<Rightarrow> request \<Rightarrow> jsobj \<Rightarrow> response" where
  "execute input middleware handler output mode req raw =
     (case input raw of
        Inl issues \<Rightarrow> Failure (ValidationError issues)
      | Inr v \<Rightarrow>
          (case middleware req of
             Inl e \<Rightarrow> signal mode e
           | Inr ctx \<Rightarrow> respond mode output (handler v ctx)))"

datatype endpoint =
  Endpoint (ep_method: http_method) (ep_run: "environment \<Rightarrow> request \<Rightarrow> jsobj \<Rightarrow> response")

section \<open>The users endpoints\<close>

text \<open>\<^verbatim>\<open>methodProviderMiddleware\<close>: accepts every input and contributes the request's method.\<close>

record options =
  opt_method :: http_method

definition methodProviderMiddleware :: "request \<Rightarrow> fault + options" where
  "methodProviderMiddleware req = Inr \<lparr>opt_method = req_method req\<rparr>"

text \<open>
  The field \<^verbatim>\<open>id: z.string().trim().regex(/\d+/).transform((id) => parseInt(id, 10))\<close>: the raw
  value must be a string; it is trimmed, the trimmed text is tested against the pattern, and
  the transform parses it.
\<close>

definition id_field :: "jsval \<Rightarrow> issue_code + number" where
  "id_field raw =
     (case raw of
        JStr s \<Rightarrow>
          (let t = trim s
           in if regex_digits_test t then Inr (parseInt10 t) else Inl invalid_format)
      | _ \<Rightarrow> Inl invalid_type)"

text \<open>The field \<^verbatim>\<open>name: z.string().min(1)\<close>.\<close>

definition name_field :: "jsval \<Rightarrow> issue_code + string" where
  "name_field raw =
     (case raw of
        JStr s \<Rightarrow> if 1 \<le> length s then Inr s else Inl too_small
      | _ \<Rightarrow> Inl invalid_type)"

fun issues_of :: "string \<Rightarrow> issue_code + 'a \<Rightarrow> issue list" where
  "issues_of k (Inl c) = [Issue k c]"
| "issues_of k (Inr v) = []"

record GetUserInput =
  user_id :: number

record UpdateUserInput = GetUserInput +
  name :: string

record GetUserOutput =
  demoData :: string

text \<open>The date of \<^verbatim>\<open>createdAt\<close> is held as the ISO text \<^verbatim>\<open>ez.dateOut()\<close> sends.\<close>

record UpdateUserOutput =
  out_name :: string
  createdAt :: string

definition getUser_input :: "jsobj \<Rightarrow> issue list + GetUserInput" where
  "getUser_input raw =
     (case id_field (get_prop raw ''id'') of
        Inl c \<Rightarrow> Inl [Issue ''id'' c]
      | Inr n \<Rightarrow> Inr \<lparr>user_id = n\<rparr>)"

definition updateUser_input :: "jsobj \<Rightarrow> issue list + UpdateUserInput" where
  "updateUser_input raw =
     (case (id_field (get_prop raw ''id''), name_field (get_prop raw ''name'')) of
        (Inr n, Inr s) \<Rightarrow> Inr \<lparr>user_id = n, name = s\<rparr>
      | (a, b) \<Rightarrow> Inl (issues_of ''id'' a @ issues_of ''name'' b))"

definition getUser_output :: "GetUserOutput \<Rightarrow> issue list + jsobj" where
  "getUser_output out = Inr [(''demoData'', JStr (demoData out))]"

definition updateUser_output :: "UpdateUserOutput \<Rightarrow> issue list + jsobj" where
  "updateUser_output out = Inr [(''name'', JStr (out_name out)), (''createdAt'', JStr (createdAt out))]"

text \<open>
  The handler of \<^verbatim>\<open>getUserEndpoint\<close>. \<^verbatim>\<open>exampleWithRandomThrow\<close> (of \<^verbatim>\<open>@/services\<close>) is not
  among the sources and faults at random: it is a parameter. The handler reads the wrapper's
  result through \<^verbatim>\<open>.ok\<close> and \<^verbatim>\<open>.data\<close>. Log output is not modelled.
\<close>

definition getUserHandler ::
  "(unit \<Rightarrow> jsval outcome) \<Rightarrow> GetUserInput \<Rightarrow> options \<Rightarrow> fault + GetUserOutput" where
  "getUserHandler exampleWithRandomThrow input opts =
     (if js_gt (user_id input) 100 then Inl (HttpError 404 ''User not found'')
      else
        (let exampleFnResult = safeAsync exampleWithRandomThrow
         in if \<not> truthy (get_prop exampleFnResult ''ok'')
            then Inr \<lparr>demoData = ''Querying User '' @ to_string (JNumber (user_id input)) @
                   '' failed safely: '' @ to_string (get_prop exampleFnResult ''data'')\<rparr>
            else Inr \<lparr>demoData = ''Querying User '' @ to_string (JNumber (user_id input)) @
                   '' succeed!''\<rparr>))"

definition updateUserHandler :: "UpdateUserInput \<Rightarrow> options \<Rightarrow> fault + UpdateUserOutput" where
  "updateUserHandler input opts =
     (if js_gt (user_id input) 100 then Inl (HttpError 404 ''User not found'')
      else Inl (HttpError 500 ''Not implemented yet!''))"

definition getUserEndpoint :: "(unit \<Rightarrow> jsval outcome) \<Rightarrow> endpoint" where
  "getUserEndpoint exampleWithRandomThrow =
     Endpoint Get
       (execute getUser_input methodProviderMiddleware (getUserHandler exampleWithRandomThrow)
          getUser_output)"

definition updateUserEndpoint :: endpoint where
  "updateUserEndpoint =
     Endpoint Post (execute updateUser_input methodProviderMiddleware updateUserHandler updateUser_output)"

section \<open>Routing\<close>

text \<open>
  The routing table: a tree whose keys are path segments, a key that starts with a colon being
  a path parameter; a leaf is one endpoint or a map from methods to endpoints.
\<close>

datatype routing =
    Leaf endpoint
  | DependsOnMethod "(http_method \<times> endpoint) list"
  | Nested "(string \<times> routing) list"

definition routing :: "(unit \<Rightarrow> jsval outcome) \<Rightarrow> routing" where
  "routing exampleWithRandomThrow =
     Nested [(''v1'',
       Nested [(''user'',
         Nested [('':id'',
           DependsOnMethod
             [(Get, getUserEndpoint exampleWithRandomThrow),
              (Post, updateUserEndpoint)])])])]"

datatype resolution =
    Resolved endpoint "(string \<times> string) list"
  | ResNotFound
  | ResMethodNotAllowed

definition is_param :: "string \<Rightarrow> bool" where
  "is_param k = (k \<noteq> [] \<and> hd k = CHR '':'')"

text \<open>
  Modelled from the spec: a segment is matched against the literal keys first, then against a
  parameter placeholder, which binds the segment to the parameter's name.
\<close>

definition match_segment ::
  "(string \<times> routing) list \<Rightarrow> string \<Rightarrow> (routing \<times> (string \<times> string) list) option" where
  "match_segment children seg =
     (case find (\<lambda>(k, r). \<not> is_param k \<and> k = seg) children of
        Some (k, r) \<Rightarrow> Some (r, [])
      | None \<Rightarrow>
          (case find (\<lambda>(k, r). is_param k) children of
             Some (k, r) \<Rightarrow> Some (r, [(tl k, seg)])
           | None \<Rightarrow> None))"

text \<open>
  Modelled from the spec: resolution is the HTTP-integration library's, not the repository's.
  The segments are matched left to right. A path that leads to no leaf is not found; at a
  leaf, a method the leaf does not hold is not allowed.
\<close>

fun resolve ::
  "string list \<Rightarrow> routing \<Rightarrow> http_method \<Rightarrow> (string \<times> string) list \<Rightarrow> resolution" where
  "resolve [] (Leaf e) m params = (if ep_method e = m then Resolved e params else ResMethodNotAllowed)"
| "resolve [] (DependsOnMethod table) m params =
     (case map_of table m of Some e \<Rightarrow> Resolved e params | None \<Rightarrow> ResMethodNotAllowed)"
| "resolve [] (Nested children) m params = ResNotFound"
| "resolve (seg # segs) (Nested children) m params =
     (case match_segment children seg of
        None \<Rightarrow> ResNotFound
      | Some (r, binding) \<Rightarrow> resolve segs r m (params @ binding))"
| "resolve (seg # segs) (Leaf e) m params = ResNotFound"
| "resolve (seg # segs) (DependsOnMethod table) m params = ResNotFound"

text \<open>
  Modelled from the spec: the raw input of an endpoint is the request's data merged from its
  sources, the path parameters (always strings) over the query of a reading request or the
  body of a writing one.
\<close>

definition merged_input :: "request \<Rightarrow> (string \<times> string) list \<Rightarrow> jsobj" where
  "merged_input req params =
     map (\<lambda>(k, v). (k, JStr v)) params @
     (case req_method req of Get \<Rightarrow> req_query req | Delete \<Rightarrow> req_query req | _ \<Rightarrow> req_body req)"

text \<open>
  Modelled from the spec: a request is resolved on the routing table, and the endpoint found
  runs on the request's merged input.
\<close>

definition handle_request ::
  "environment \<Rightarrow> (unit \<Rightarrow> jsval outcome) \<Rightarrow> request \<Rightarrow> response" where
  "handle_request mode exampleWithRandomThrow req =
     (case resolve (req_path req) (routing exampleWithRandomThrow) (req_method req) [] of
        ResNotFound \<Rightarrow> Failure NotFound
      | ResMethodNotAllowed \<Rightarrow> Failure MethodNotAllowed
      | Resolved e params \<Rightarrow> ep_run e mode req (merged_input req params))"

text \<open>The path of the users endpoints: \<^verbatim>\<open>/v1/user/<id>\<close>.\<close>

definition user_path :: "string \<Rightarrow> string list" where
  "user_path id_text = [''v1'', ''user'', id_text]"

definition user_request :: "http_method \<Rightarrow> string \<Rightarrow> jsobj \<Rightarrow> request" where
  "user_request m id_text body =
     \<lparr>req_method = m, req_path = user_path id_text, req_query = [], req_body = body\<rparr>"

section \<open>Configuration\<close>

text \<open>
  The schema of the environment file, as a table: each option with its validator and its
  default. A parsed value is a number, a boolean or a string.
\<close>

datatype zvalue = VNumber rat | VBoolean bool | VString string

datatype ztype = ZCoerceNumber | ZCoerceBoolean | ZCoerceString | ZEnum "string list"

definition EnvFileSchema :: "(string \<times> ztype \<times> zvalue) list" where
  "EnvFileSchema =
     [(''PORT'', ZCoerceNumber, VNumber 8090),
      (''CORS_ENABLED'', ZCoerceBoolean, VBoolean True),
      (''COMPRESSION_ENABLED'', ZCoerceBoolean, VBoolean True),
      (''UPLOAD_ENABLED'', ZCoerceBoolean, VBoolean True),
      (''LOG_LEVEL'', ZEnum [''silent'', ''warn'', ''debug''], VString ''debug''),
      (''LOG_COLORED'', ZCoerceBoolean, VBoolean True),
      (''GENERATE_CLIENT'', ZCoerceBoolean, VBoolean True),
      (''GENERATE_API_DOCS'', ZCoerceBoolean, VBoolean True),
      (''API_VERSION'', ZCoerceString, VString ''0.0.1''),
      (''API_TITLE'', ZCoerceString, VString ''my-api''),
      (''API_SERVER_URL'', ZCoerceString, VString ''http://localhost:8090/v1'')]"

text \<open>
  A present value of the environment is a string. \<^verbatim>\<open>z.coerce.number()\<close> applies \<^verbatim>\<open>Number\<close> and
  refuses what is not a finite number; \<open>toNumber\<close> stands for \<^verbatim>\<open>Number\<close> on strings, with
  \<open>None\<close> for such a result. \<^verbatim>\<open>z.coerce.boolean()\<close> applies \<^verbatim>\<open>Boolean\<close>: only the empty string is
  false. \<^verbatim>\<open>z.coerce.string()\<close> keeps the string. \<^verbatim>\<open>z.enum\<close> accepts its members only.
\<close>

fun parse_value :: "(string \<Rightarrow> rat option) \<Rightarrow> ztype \<Rightarrow> string \<Rightarrow> zvalue option" where
  "parse_value toNumber ZCoerceNumber v = map_option VNumber (toNumber v)"
| "parse_value toNumber ZCoerceBoolean v = Some (VBoolean (v \<noteq> []))"
| "parse_value toNumber ZCoerceString v = Some (VString v)"
| "parse_value toNumber (ZEnum members) v = (if v \<in> set members then Some (VString v) else None)"

text \<open>\<^verbatim>\<open>.default(d)\<close>: an absent option takes the default and is not validated.\<close>

definition parse_entry ::
  "(string \<Rightarrow> rat option) \<Rightarrow> (string \<rightharpoonup> string) \<Rightarrow> string \<times> ztype \<times> zvalue \<Rightarrow> zvalue option" where
  "parse_entry toNumber env e =
     (case e of (k, t, d) \<Rightarrow>
        (case env k of None \<Rightarrow> Some d | Some v \<Rightarrow> parse_value toNumber t v))"

text \<open>
  \<^verbatim>\<open>z.object({...}).parse\<close>: every option of the schema is parsed; the keys that failed and the
  values that parsed are collected, and the parse throws when a key failed.
\<close>

fun parse_object ::
  "(string \<Rightarrow> rat option) \<Rightarrow> (string \<times> ztype \<times> zvalue) list \<Rightarrow> (string \<rightharpoonup> string) \<Rightarrow>
   string list \<times> (string \<times> zvalue) list" where
  "parse_object toNumber [] env = ([], [])"
| "parse_object toNumber (e # es) env =
     (case parse_object toNumber es env of (bad, good) \<Rightarrow>
        (case parse_entry toNumber env e of
           None \<Rightarrow> (fst e # bad, good)
         | Some v \<Rightarrow> (bad, (fst e, v) # good)))"

datatype config_error = ConfigurationError "string list"

text \<open>\<^verbatim>\<open>envConfig = EnvFileSchema.parse(process.env)\<close>.\<close>

definition loadConfig ::
  "(string \<Rightarrow> rat option) \<Rightarrow> (string \<rightharpoonup> string) \<Rightarrow> config_error + (string \<times> zvalue) list" where
  "loadConfig toNumber env =
     (case parse_object toNumber EnvFileSchema env of
        ([], envConfig) \<Rightarrow> Inr envConfig
      | (k # ks, partial) \<Rightarrow> Inl (ConfigurationError (k # ks)))"

text \<open>\<^verbatim>\<open>Environment = z.enum(['production', 'development'])\<close>, parsed from \<^verbatim>\<open>NODE_ENV\<close>.\<close>

definition Environment_parse :: "string option \<Rightarrow> issue_code + environment" where
  "Environment_parse v =
     (if v = Some ''production'' then Inr production
      else if v = Some ''development'' then Inr development
      else Inl invalid_value)"

text \<open>
  Start-up: the configuration modules are evaluated when the entry module imports them, so a
  parse that throws there ends the process before the generators are loaded and before
  \<^verbatim>\<open>createServer\<close> is called. Otherwise the generators run in development when their option
  is on, and the server is created.
\<close>

datatype startup =
    Crashed
  | Serving (generated_client: bool) (generated_docs: bool) (serving_config: "(string \<times> zvalue) list")

definition enabled :: "(string \<times> zvalue) list \<Rightarrow> string \<Rightarrow> bool" where
  "enabled envConfig k = (map_of envConfig k = Some (VBoolean True))"

definition bootstrap :: "(string \<Rightarrow> rat option) \<Rightarrow> (string \<rightharpoonup> string) \<Rightarrow> startup" where
  "bootstrap toNumber env =
     (case Environment_parse (env ''NODE_ENV'') of
        Inl e \<Rightarrow> Crashed
      | Inr currentEnvironment \<Rightarrow>
          (case loadConfig toNumber env of
             Inl e \<Rightarrow> Crashed
           | Inr envConfig \<Rightarrow>
               (let isDevEnvironment = (currentEnvironment = development)
                in Serving (isDevEnvironment \<and> enabled envConfig ''GENERATE_CLIENT'')
                     (isDevEnvironment \<and> enabled envConfig ''GENERATE_API_DOCS'') envConfig)))"

text \<open>
  \<^verbatim>\<open>Number\<close> on the strings of decimal digits (the empty string is 0), and \<open>None\<close> on every
  other string: an instance of the coercion for the examples below.
\<close>

definition digits_toNumber :: "string \<Rightarrow> rat option" where
  "digits_toNumber s = (if list_all is_digit s then Some (of_nat (digits_value 0 s)) else None)"

text \<open>Three environments for the examples below.\<close>

definition sample_env :: "string \<rightharpoonup> string" where
  "sample_env = map_of [(''PORT'', ''abc''), (''CORS_ENABLED'', ''false'')]"

definition port_env :: "string \<rightharpoonup> string" where
  "port_env = map_of [(''PORT'', ''3000''), (''CORS_ENABLED'', ''false'')]"

definition test_env :: "string \<rightharpoonup> string" where
  "test_env = map_of [(''NODE_ENV'', ''test'')]"

section \<open>Decimal text\<close>

lemma digit_char_cases: "d < 10 \<Longrightarrow> d = 0 \<or> d = 1 \<or> d = 2 \<or> d = 3 \<or> d = 4 \<or> d = 5 \<or> d = 6 \<or> d = 7 \<or> d = 8 \<or> d = (9::nat)"
  by arith

lemma is_digit_digit_char: "d < 10 \<Longrightarrow> is_digit (digit_char d)"
  using digit_char_cases [of d] by (auto simp: is_digit_def digit_char_def)

lemma digit_of_digit_char: "d < 10 \<Longrightarrow> digit_of (digit_char d) = d"
  using digit_char_cases [of d] by (auto simp: digit_of_def digit_char_def)

lemma digits_value_snoc: "digits_value acc (xs @ [c]) = 10 * digits_value acc xs + digit_of c"
  by (induction xs arbitrary: acc) simp_all

lemma string_of_nat_not_Nil: "string_of_nat n \<noteq> []"
  by (subst string_of_nat.simps) simp

lemma string_of_nat_digits: "list_all is_digit (string_of_nat n)"
proof (induction n rule: string_of_nat.induct)
  case (1 n)
  show ?case
  proof (cases "n < 10")
    case True
    then show ?thesis by (subst string_of_nat.simps) (simp add: is_digit_digit_char)
  next
    case False
    with 1 show ?thesis by (subst string_of_nat.simps) (simp add: is_digit_digit_char)
  qed
qed

lemma digits_value_string_of_nat: "digits_value 0 (string_of_nat n) = n"
proof (induction n rule: string_of_nat.induct)
  case (1 n)
  show ?case
  proof (cases "n < 10")
    case True
    then show ?thesis by (subst string_of_nat.simps) (simp add: digit_of_digit_char)
  next
    case False
    with 1 show ?thesis
      by (subst string_of_nat.simps) (simp add: digits_value_snoc digit_of_digit_char)
  qed
qed

lemma digit_not_space: "is_digit c \<Longrightarrow> \<not> is_space c"
  by (auto simp: is_digit_def is_space_def)

lemma digit_not_sign: "is_digit c \<Longrightarrow> c \<noteq> CHR ''-'' \<and> c \<noteq> CHR ''+''"
  by (auto simp: is_digit_def)

lemma dropWhile_space_digits: "list_all is_digit t \<Longrightarrow> dropWhile is_space t = t"
  by (cases t) (simp_all add: digit_not_space)

lemma trim_digits: "list_all is_digit t \<Longrightarrow> trim t = t"
proof -
  assume a: "list_all is_digit t"
  then have "list_all is_digit (rev t)" by (simp add: list_all_iff)
  then have "dropWhile is_space (rev t) = rev t" by (rule dropWhile_space_digits)
  with a show ?thesis by (simp add: trim_def dropWhile_space_digits)
qed

lemma takeWhile_all: "list_all P t \<Longrightarrow> takeWhile P t = t"
  by (induction t) simp_all

lemma parseInt10_digits:
  assumes "t \<noteq> []" "list_all is_digit t"
  shows "parseInt10 t = Num (int (digits_value 0 t))"
proof -
  from assms obtain c cs where t: "t = c # cs" by (cases t) auto
  with assms have c: "is_digit c" by simp
  have d: "dropWhile is_space t = t" using assms by (simp add: dropWhile_space_digits)
  have s: "hd t \<noteq> CHR ''-''" "hd t \<noteq> CHR ''+''" using t c digit_not_sign by auto
  show ?thesis using assms s d by (simp add: parseInt10_def Let_def takeWhile_all)
qed

lemma regex_digits: "t \<noteq> [] \<Longrightarrow> list_all is_digit t \<Longrightarrow> regex_digits_test t"
  by (cases t) (simp_all add: regex_digits_test_def)

lemma set_trim: "set (trim s) \<subseteq> set s"
proof -
  have "set (trim s) = set (dropWhile is_space (rev (dropWhile is_space s)))"
    by (simp add: trim_def)
  also have "\<dots> \<subseteq> set (rev (dropWhile is_space s))" by (rule set_dropWhileD [THEN subsetI])
  also have "\<dots> \<subseteq> set s" using set_dropWhileD by fastforce
  finally show ?thesis .
qed

lemma regex_no_digit: "\<not> list_ex is_digit s \<Longrightarrow> \<not> regex_digits_test (trim s)"
  using set_trim [of s] by (auto simp: regex_digits_test_def list_ex_iff)

section \<open>The id field\<close>

lemma id_field_digits:
  "trim s \<noteq> [] \<Longrightarrow> list_all is_digit (trim s) \<Longrightarrow>
   id_field (JStr s) = Inr (Num (int (digits_value 0 (trim s))))"
  by (simp add: id_field_def Let_def regex_digits parseInt10_digits)

lemma id_field_no_digit: "\<not> list_ex is_digit s \<Longrightarrow> id_field (JStr s) = Inl invalid_format"
  by (simp add: id_field_def Let_def regex_no_digit)

lemma id_field_not_string: "\<forall>s. raw \<noteq> JStr s \<Longrightarrow> id_field raw = Inl invalid_type"
  by (cases raw) (auto simp: id_field_def)

lemma id_field_string_of_nat: "id_field (JStr (string_of_nat n)) = Inr (Num (int n))"
  using id_field_digits [of "string_of_nat n"]
  by (simp add: trim_digits string_of_nat_digits string_of_nat_not_Nil digits_value_string_of_nat)

section \<open>Resolution on the routing table\<close>

lemma match_literal:
  "\<not> is_param k \<Longrightarrow> match_segment [(k, r)] seg = (if k = seg then Some (r, []) else None)"
  by (simp add: match_segment_def)

lemma match_param:
  "is_param k \<Longrightarrow> match_segment [(k, r)] seg = Some (r, [(tl k, seg)])"
  by (simp add: match_segment_def)

lemma resolve_user_path:
  "resolve (user_path t) (routing ex) m [] =
     (case m of Get \<Rightarrow> Resolved (getUserEndpoint ex) [(''id'', t)]
      | Post \<Rightarrow> Resolved updateUserEndpoint [(''id'', t)]
      | _ \<Rightarrow> ResMethodNotAllowed)"
  by (cases m) (simp_all add: user_path_def routing_def match_literal match_param is_param_def)

lemma resolve_other_path:
  assumes "\<forall>t. path \<noteq> user_path t"
  shows "resolve path (routing ex) m [] = ResNotFound"
proof (cases path)
  case Nil
  then show ?thesis by (simp add: routing_def)
next
  case p1: (Cons a as)
  show ?thesis
  proof (cases "a = ''v1''")
    case False
    with p1 show ?thesis by (simp add: routing_def match_literal is_param_def)
  next
    case a: True
    show ?thesis
    proof (cases as)
      case Nil
      with p1 a show ?thesis by (simp add: routing_def match_literal is_param_def)
    next
      case p2: (Cons b bs)
      show ?thesis
      proof (cases "b = ''user''")
        case False
        with p1 a p2 show ?thesis by (simp add: routing_def match_literal is_param_def)
      next
        case b: True
        show ?thesis
        proof (cases bs)
          case Nil
          with p1 a p2 b show ?thesis by (simp add: routing_def match_literal is_param_def)
        next
          case p3: (Cons c cs)
          show ?thesis
          proof (cases cs)
            case Nil
            with p1 a p2 b p3 assms show ?thesis by (simp add: user_path_def)
          next
            case (Cons d ds)
            with p1 a p2 b p3 show ?thesis
              by (simp add: routing_def match_literal match_param is_param_def)
          qed
        qed
      qed
    qed
  qed
qed

section \<open>Requests to the users endpoints\<close>

lemma get_prop_hd: "get_prop ((k, v) # rest) k = v"
  by (simp add: get_prop_def)

lemma get_prop_tl: "k' \<noteq> k \<Longrightarrow> get_prop ((k', v) # rest) k = get_prop rest k"
  by (simp add: get_prop_def)

lemma handle_get:
  assumes "req_method req = Get" "req_path req = user_path t"
  shows "handle_request mode ex req =
     execute getUser_input methodProviderMiddleware (getUserHandler ex) getUser_output mode req
       ((''id'', JStr t) # req_query req)"
  using assms
  by (simp add: handle_request_def resolve_user_path merged_input_def getUserEndpoint_def)

lemma handle_post:
  assumes "req_method req = Post" "req_path req = user_path t"
  shows "handle_request mode ex req =
     execute updateUser_input methodProviderMiddleware updateUserHandler updateUser_output mode req
       ((''id'', JStr t) # req_body req)"
  using assms
  by (simp add: handle_request_def resolve_user_path merged_input_def updateUserEndpoint_def)

lemma getUser_input_id:
  "getUser_input ((''id'', JStr s) # rest) =
     (case id_field (JStr s) of Inl c \<Rightarrow> Inl [Issue ''id'' c] | Inr n \<Rightarrow> Inr \<lparr>user_id = n\<rparr>)"
  by (simp add: getUser_input_def get_prop_hd)

lemma execute_valid:
  "input raw = Inr v \<Longrightarrow>
   execute input methodProviderMiddleware handler output mode req raw =
     respond mode output (handler v \<lparr>opt_method = req_method req\<rparr>)"
  by (simp add: execute_def methodProviderMiddleware_def)

lemma execute_invalid:
  "input raw = Inl issues \<Longrightarrow>
   execute input middleware handler output mode req raw = Failure (ValidationError issues)"
  by (simp add: execute_def)


lemma trim_pad12: "trim '' 12 '' = ''12''"
  by (simp add: trim_def is_space_def)

lemma handle_get_valid:
  assumes "req_method req = Get" "req_path req = user_path t" "id_field (JStr t) = Inr i"
  shows "handle_request mode ex req =
     respond mode getUser_output (getUserHandler ex \<lparr>user_id = i\<rparr> \<lparr>opt_method = Get\<rparr>)"
proof -
  have "getUser_input ((''id'', JStr t) # req_query req) = Inr \<lparr>user_id = i\<rparr>"
    using assms(3) by (simp add: getUser_input_id)
  then show ?thesis
    using assms(1,2) by (simp add: handle_get execute_valid)
qed

lemma updateUser_input_valid:
  assumes "id_field (JStr t) = Inr i" "get_prop body ''name'' = JStr nm" "nm \<noteq> []"
  shows "updateUser_input ((''id'', JStr t) # body) = Inr \<lparr>user_id = i, name = nm\<rparr>"
  using assms by (cases nm) (simp_all add: updateUser_input_def get_prop_hd get_prop_tl name_field_def)

lemma handle_post_valid:
  assumes "req_method req = Post" "req_path req = user_path t" "id_field (JStr t) = Inr i"
    "get_prop (req_body req) ''name'' = JStr nm" "nm \<noteq> []"
  shows "handle_request mode ex req =
     respond mode updateUser_output (updateUserHandler \<lparr>user_id = i, name = nm\<rparr> \<lparr>opt_method = Post\<rparr>)"
  using assms by (simp add: handle_post execute_valid updateUser_input_valid)

lemma to_string_nat: "to_string (JNumber (Num (int n))) = string_of_nat n"
  by (simp add: string_of_int_def)

lemma string_of_nat_12: "string_of_nat 12 = ''12''"
  by (simp add: string_of_nat.simps digit_char_def)

lemma digits_value_150: "digits_value 0 ''150'' = 150"
  by (simp add: digit_of_def)

lemma digits_value_12: "digits_value 0 ''12'' = 12"
  by (simp add: digit_of_def)

lemma updateUserHandler_fails: "\<exists>e. updateUserHandler input opts = Inl e"
  by (simp add: updateUserHandler_def)

lemma respond_fault: "\<exists>f. respond mode out_schema (Inl e) = Failure f"
  by (cases e) (simp_all add: respond_def)

lemma post_never_succeeds:
  assumes "req_method req = Post"
  shows "\<exists>f. handle_request mode ex req = Failure f"
proof (cases "\<exists>t. req_path req = user_path t")
  case False
  then show ?thesis by (simp add: handle_request_def resolve_other_path)
next
  case True
  then obtain t where t: "req_path req = user_path t" ..
  let ?raw = "(''id'', JStr t) # req_body req"
  show ?thesis
  proof (cases "updateUser_input ?raw")
    case (Inl issues)
    then show ?thesis using assms t by (simp add: handle_post execute_invalid)
  next
    case (Inr v)
    obtain e where e: "updateUserHandler v \<lparr>opt_method = req_method req\<rparr> = Inl e"
      using updateUserHandler_fails by blast
    from Inr have "handle_request mode ex req =
        respond mode updateUser_output (updateUserHandler v \<lparr>opt_method = req_method req\<rparr>)"
      using assms t by (simp add: handle_post execute_valid)
    with e show ?thesis using respond_fault [where out_schema = updateUser_output and e = e and mode = mode] by simp
  qed
qed

lemma public_message_exposed: "code < 500 \<Longrightarrow> public_message mode code message = message"
  by (simp add: public_message_def expose_def)

lemma public_message_500:
  "public_message mode 500 message =
     (if mode = production then ''Internal Server Error'' else message)"
  by (simp add: public_message_def expose_def status_text_def)

lemma post_not_implemented:
  assumes "req_method req = Post" "req_path req = user_path t" "t \<noteq> []" "list_all is_digit t"
    "digits_value 0 t \<le> 100" "get_prop (req_body req) ''name'' = JStr nm" "nm \<noteq> []"
  shows "handle_request mode ex req =
     Failure (HandlerSignaledError 500
       (if mode = production then ''Internal Server Error'' else ''Not implemented yet!''))"
proof -
  from assms(3,4) have "id_field (JStr t) = Inr (Num (int (digits_value 0 t)))"
    using id_field_digits [of t] by (simp add: trim_digits)
  with assms have "handle_request mode ex req =
      respond mode updateUser_output
        (updateUserHandler \<lparr>user_id = Num (int (digits_value 0 t)), name = nm\<rparr>
           \<lparr>opt_method = Post\<rparr>)"
    using handle_post_valid
      [where req = req and t = t and i = "Num (int (digits_value 0 t))" and nm = nm]
    by simp
  with assms(5) show ?thesis
    by (simp add: updateUserHandler_def respond_def public_message_500)
qed

lemma updateUser_input_accepts:
  assumes "id_field (get_prop raw ''id'') = Inr i" "get_prop raw ''name'' = JStr nm" "nm \<noteq> []"
  shows "updateUser_input raw = Inr \<lparr>user_id = i, name = nm\<rparr>"
  using assms by (cases nm) (simp_all add: updateUser_input_def name_field_def)

section \<open>Parsing the environment\<close>

lemma parse_entry_None_iff:
  "parse_entry tn env (k, t, d) = None \<longleftrightarrow> (\<exists>v. env k = Some v \<and> parse_value tn t v = None)"
  by (simp add: parse_entry_def split: option.splits)

lemma parse_entry_absent: "env k = None \<Longrightarrow> parse_entry tn env (k, t, d) = Some d"
  by (simp add: parse_entry_def)

lemma parse_object_fst:
  "fst (parse_object tn es env) = map fst (filter (\<lambda>e. parse_entry tn env e = None) es)"
  by (induction es) (auto split: prod.splits option.splits)

lemma parse_object_snd:
  "snd (parse_object tn es env) =
     List.map_filter (\<lambda>e. map_option (Pair (fst e)) (parse_entry tn env e)) es"
  by (induction es) (auto simp: map_filter_simps split: prod.splits option.splits)

lemma parsed_keys:
  "\<forall>e \<in> set es. parse_entry tn env e \<noteq> None \<Longrightarrow>
   map fst (List.map_filter (\<lambda>e. map_option (Pair (fst e)) (parse_entry tn env e)) es) = map fst es"
  by (induction es) (auto simp: map_filter_simps)

lemma parsed_lookup:
  "distinct (map fst es) \<Longrightarrow> e \<in> set es \<Longrightarrow> parse_entry tn env e = Some v \<Longrightarrow>
   map_of (List.map_filter (\<lambda>e. map_option (Pair (fst e)) (parse_entry tn env e)) es) (fst e) = Some v"
proof (induction es)
  case Nil
  then show ?case by simp
next
  case (Cons a es)
  show ?case
  proof (cases "e = a")
    case True
    with Cons.prems show ?thesis by (simp add: map_filter_simps)
  next
    case False
    with Cons.prems have m: "e \<in> set es" and d: "distinct (map fst es)" and n: "fst a \<noteq> fst e"
      by force+
    from Cons.IH [OF d m Cons.prems(3)] n show ?thesis
      by (cases "parse_entry tn env a") (simp_all add: map_filter_simps)
  qed
qed

lemma loadConfig_Inr_iff:
  "loadConfig tn env = Inr cfg \<longleftrightarrow>
     (\<forall>e \<in> set EnvFileSchema. parse_entry tn env e \<noteq> None) \<and>
     cfg = List.map_filter (\<lambda>e. map_option (Pair (fst e)) (parse_entry tn env e)) EnvFileSchema"
proof -
  obtain bad good where p: "parse_object tn EnvFileSchema env = (bad, good)"
    by (cases "parse_object tn EnvFileSchema env")
  from p have b: "bad = map fst (filter (\<lambda>e. parse_entry tn env e = None) EnvFileSchema)"
    using parse_object_fst [of tn EnvFileSchema env] by simp
  from p have g: "good =
      List.map_filter (\<lambda>e. map_option (Pair (fst e)) (parse_entry tn env e)) EnvFileSchema"
    using parse_object_snd [of tn EnvFileSchema env] by simp
  have "bad = [] \<longleftrightarrow> (\<forall>e \<in> set EnvFileSchema. parse_entry tn env e \<noteq> None)"
    unfolding b by (simp add: filter_empty_conv)
  with g show ?thesis
    unfolding loadConfig_def p by (cases bad) auto
qed

lemma loadConfig_Inl_iff:
  "(\<exists>bad. loadConfig tn env = Inl (ConfigurationError bad)) \<longleftrightarrow>
     (\<exists>e \<in> set EnvFileSchema. parse_entry tn env e = None)"
proof -
  have "(\<exists>bad. loadConfig tn env = Inl (ConfigurationError bad)) \<longleftrightarrow> (\<forall>cfg. loadConfig tn env \<noteq> Inr cfg)"
  proof (cases "loadConfig tn env")
    case (Inl a)
    then show ?thesis by (cases a) simp
  next
    case (Inr b)
    then show ?thesis by simp
  qed
  then show ?thesis by (simp add: loadConfig_Inr_iff)
qed

lemma schema_failure_iff:
  "(\<exists>e \<in> set EnvFileSchema. parse_entry tn env e = None) \<longleftrightarrow>
     (\<exists>v. env ''PORT'' = Some v \<and> tn v = None) \<or>
     (\<exists>v. env ''LOG_LEVEL'' = Some v \<and> v \<notin> set [''silent'', ''warn'', ''debug''])"
  by (auto simp: EnvFileSchema_def parse_entry_None_iff)

lemma schema_distinct: "distinct (map fst EnvFileSchema)"
  by (simp add: EnvFileSchema_def)

lemma digits_toNumber_abc: "digits_toNumber ''abc'' = None"
  by (simp add: digits_toNumber_def is_digit_def)

lemma digits_toNumber_3000: "digits_toNumber ''3000'' = Some 3000"
  by (simp add: digits_toNumber_def is_digit_def digit_of_def)

section \<open>The safe-execution wrappers\<close>

text \<open>
  Claim C1, as amended. For every function passed to \<^verbatim>\<open>safe\<close> or \<^verbatim>\<open>safeAsync\<close>: if it
  returns normally with result \<open>v\<close>, the wrapper returns \<^verbatim>\<open>{ok: true, data: v}\<close>; if it throws,
  the wrapper returns \<^verbatim>\<open>{ok: false, data: s}\<close> where \<open>s\<close> is the failure's message; in every
  case the wrapper returns an object whose \<^verbatim>\<open>ok\<close> is a boolean, and throws nothing.
\<close>

theorem safe_returns_ok_data:
  "(fn () = Returns v \<longrightarrow>
      safe fn = [(''ok'', JBool True), (''data'', v)] \<and>
      safeAsync fn = [(''ok'', JBool True), (''data'', v)]) \<and>
   (fn () = Throws message \<longrightarrow>
      safe fn = [(''ok'', JBool False), (''data'', JStr message)] \<and>
      safeAsync fn = [(''ok'', JBool False), (''data'', JStr message)]) \<and>
   (\<exists>b. get_prop (safe fn) ''ok'' = JBool b) \<and>
   (\<exists>b. get_prop (safeAsync fn) ''ok'' = JBool b)"
  by (cases "fn ()") (auto simp: safe_def safeAsync_def get_prop_def)

theorem safe_returns_ok_data_witness:
  "safe returns_one = [(''ok'', JBool True), (''data'', JNumber (Num 1))] \<and>
   safeAsync throws_boom = [(''ok'', JBool False), (''data'', JStr ''boom'')]"
  using safe_returns_ok_data [where fn = returns_one and v = "JNumber (Num 1)"]
    safe_returns_ok_data [where fn = throws_boom and message = "''boom''"]
  by (simp add: returns_one_def throws_boom_def)

text \<open>
  The claim as stated names the payload \<^verbatim>\<open>value\<close> on success and \<^verbatim>\<open>error\<close> on failure. The
  result has neither property: both read \<^verbatim>\<open>undefined\<close>, and the payload is under \<^verbatim>\<open>data\<close>.
\<close>

theorem safe_no_value_error_fields:
  "get_prop (safe returns_one) ''value'' = JUndefined \<and>
   get_prop (safe returns_one) ''data'' = JNumber (Num 1) \<and>
   get_prop (safe throws_boom) ''error'' = JUndefined \<and>
   get_prop (safe throws_boom) ''data'' = JStr ''boom''"
  by (simp add: safe_def returns_one_def throws_boom_def get_prop_def)

section \<open>Validation of the id path parameter\<close>

text \<open>
  Claim C2, as amended. The raw value of the users endpoints' \<^verbatim>\<open>id\<close> is trimmed of
  surrounding white space first. A value whose trimmed text is a non-empty run of digits is
  accepted by either users endpoint (the update one given a non-empty name), and the handler
  runs on its decimal value (exactly that value up to \<open>2^53\<close>). A
  value with no digit at all yields a validation error (status 400) naming the field, for
  either users endpoint, whatever the handler is: the handler is not invoked.
\<close>

theorem id_accepts_trimmed_digits_rejects_digitless:
  "(get_prop raw ''id'' = JStr s \<and> trim s \<noteq> [] \<and> list_all is_digit (trim s) \<longrightarrow>
      (\<exists>i. getUser_input raw = Inr \<lparr>user_id = i\<rparr> \<and>
           execute getUser_input methodProviderMiddleware handler out_schema mode req raw =
             respond mode out_schema (handler \<lparr>user_id = i\<rparr> \<lparr>opt_method = req_method req\<rparr>) \<and>
           (digits_value 0 (trim s) \<le> max_safe \<longrightarrow>
              i = Num (int (digits_value 0 (trim s)))))) \<and>
   (get_prop raw ''id'' = JStr s \<and> trim s \<noteq> [] \<and> list_all is_digit (trim s) \<and>
    get_prop raw ''name'' = JStr nm \<and> nm \<noteq> [] \<longrightarrow>
      (\<exists>i. updateUser_input raw = Inr \<lparr>user_id = i, name = nm\<rparr> \<and>
           execute updateUser_input methodProviderMiddleware handler' out_schema' mode req raw =
             respond mode out_schema'
               (handler' \<lparr>user_id = i, name = nm\<rparr> \<lparr>opt_method = req_method req\<rparr>) \<and>
           (digits_value 0 (trim s) \<le> max_safe \<longrightarrow>
              i = Num (int (digits_value 0 (trim s)))))) \<and>
   (get_prop raw ''id'' = JStr s \<and> \<not> list_ex is_digit s \<longrightarrow>
      execute getUser_input middleware handler out_schema mode req raw =
        Failure (ValidationError [Issue ''id'' invalid_format]) \<and>
      (\<exists>issues. execute updateUser_input middleware handler' out_schema' mode req raw =
        Failure (ValidationError issues) \<and> Issue ''id'' invalid_format \<in> set issues)) \<and>
   status_of (Failure (ValidationError issues')) = 400"
proof (intro conjI impI)
  assume a: "get_prop raw ''id'' = JStr s \<and> trim s \<noteq> [] \<and> list_all is_digit (trim s)"
  then have v: "getUser_input raw = Inr \<lparr>user_id = Num (int (digits_value 0 (trim s)))\<rparr>"
    by (simp add: getUser_input_def id_field_digits)
  then have "execute getUser_input methodProviderMiddleware handler out_schema mode req raw =
      respond mode out_schema (handler \<lparr>user_id = Num (int (digits_value 0 (trim s)))\<rparr>
        \<lparr>opt_method = req_method req\<rparr>)"
    by (rule execute_valid)
  with v show "\<exists>i. getUser_input raw = Inr \<lparr>user_id = i\<rparr> \<and>
      execute getUser_input methodProviderMiddleware handler out_schema mode req raw =
        respond mode out_schema (handler \<lparr>user_id = i\<rparr> \<lparr>opt_method = req_method req\<rparr>) \<and>
      (digits_value 0 (trim s) \<le> max_safe \<longrightarrow> i = Num (int (digits_value 0 (trim s))))"
    by simp
next
  assume a: "get_prop raw ''id'' = JStr s \<and> trim s \<noteq> [] \<and> list_all is_digit (trim s) \<and>
    get_prop raw ''name'' = JStr nm \<and> nm \<noteq> []"
  then have "id_field (get_prop raw ''id'') = Inr (Num (int (digits_value 0 (trim s))))"
    by (simp add: id_field_digits)
  with a have v: "updateUser_input raw =
      Inr \<lparr>user_id = Num (int (digits_value 0 (trim s))), name = nm\<rparr>"
    by (simp add: updateUser_input_accepts)
  then have "execute updateUser_input methodProviderMiddleware handler' out_schema' mode req raw =
      respond mode out_schema'
        (handler' \<lparr>user_id = Num (int (digits_value 0 (trim s))), name = nm\<rparr>
          \<lparr>opt_method = req_method req\<rparr>)"
    by (rule execute_valid)
  with v show "\<exists>i. updateUser_input raw = Inr \<lparr>user_id = i, name = nm\<rparr> \<and>
      execute updateUser_input methodProviderMiddleware handler' out_schema' mode req raw =
        respond mode out_schema'
          (handler' \<lparr>user_id = i, name = nm\<rparr> \<lparr>opt_method = req_method req\<rparr>) \<and>
      (digits_value 0 (trim s) \<le> max_safe \<longrightarrow> i = Num (int (digits_value 0 (trim s))))"
    by simp
next
  assume a: "get_prop raw ''id'' = JStr s \<and> \<not> list_ex is_digit s"
  then have f: "id_field (get_prop raw ''id'') = Inl invalid_format"
    by (simp add: id_field_no_digit)
  then have "getUser_input raw = Inl [Issue ''id'' invalid_format]"
    by (simp add: getUser_input_def)
  then show "execute getUser_input middleware handler out_schema mode req raw =
        Failure (ValidationError [Issue ''id'' invalid_format])"
    by (rule execute_invalid)
  from f have "updateUser_input raw =
      Inl (Issue ''id'' invalid_format # issues_of ''name'' (name_field (get_prop raw ''name'')))"
    by (simp add: updateUser_input_def)
  then have "execute updateUser_input middleware handler' out_schema' mode req raw =
      Failure (ValidationError
        (Issue ''id'' invalid_format # issues_of ''name'' (name_field (get_prop raw ''name''))))"
    by (rule execute_invalid)
  then show "\<exists>issues. execute updateUser_input middleware handler' out_schema' mode req raw =
        Failure (ValidationError issues) \<and> Issue ''id'' invalid_format \<in> set issues"
    by simp
next
  show "status_of (Failure (ValidationError issues')) = 400" by simp
qed

theorem id_accepts_trimmed_digits_rejects_digitless_witness:
  "getUser_input [(''id'', JStr '' 12 '')] = Inr \<lparr>user_id = Num 12\<rparr> \<and>
   execute getUser_input methodProviderMiddleware (getUserHandler returns_one) getUser_output
     development (user_request Get ''abc'' []) [(''id'', JStr ''abc'')] =
     Failure (ValidationError [Issue ''id'' invalid_format])"
proof -
  have h1: "get_prop [(''id'', JStr '' 12 '')] ''id'' = JStr '' 12 '' \<and> trim '' 12 '' \<noteq> [] \<and>
      list_all is_digit (trim '' 12 '')"
    by (simp add: get_prop_hd trim_pad12 is_digit_def)
  have h2: "get_prop [(''id'', JStr ''abc'')] ''id'' = JStr ''abc'' \<and> \<not> list_ex is_digit ''abc''"
    by (simp add: get_prop_hd is_digit_def)
  have v: "digits_value 0 (trim '' 12 '') = 12"
    by (simp add: trim_pad12 digit_of_def)
  from h1 obtain i where i: "getUser_input [(''id'', JStr '' 12 '')] = Inr \<lparr>user_id = i\<rparr>"
    and iv: "digits_value 0 (trim '' 12 '') \<le> max_safe \<longrightarrow>
      i = Num (int (digits_value 0 (trim '' 12 '')))"
    using id_accepts_trimmed_digits_rejects_digitless
      [where raw = "[(''id'', JStr '' 12 '')]" and s = "'' 12 ''"] by blast
  from iv v have "i = Num 12" by (simp add: max_safe_def)
  with i have a: "getUser_input [(''id'', JStr '' 12 '')] = Inr \<lparr>user_id = Num 12\<rparr>" by simp
  from h2 have b: "execute getUser_input methodProviderMiddleware (getUserHandler returns_one)
      getUser_output development (user_request Get ''abc'' []) [(''id'', JStr ''abc'')] =
      Failure (ValidationError [Issue ''id'' invalid_format])"
    using id_accepts_trimmed_digits_rejects_digitless
      [where raw = "[(''id'', JStr ''abc'')]" and s = "''abc''"
         and middleware = methodProviderMiddleware and handler = "getUserHandler returns_one"
         and out_schema = getUser_output and req = "user_request Get ''abc'' []"
         and mode = development] by blast
  from a b show ?thesis by simp
qed

text \<open>
  The claim as stated accepts digit-only values only. The path value \<^verbatim>\<open>" 12"\<close> (the path
  \<^verbatim>\<open>/v1/user/%2012\<close>) is not digit-only, and the request succeeds with the id 12.
\<close>

theorem padded_id_reaches_handler:
  "\<not> list_all is_digit '' 12'' \<and>
   handle_request development returns_one (user_request Get '' 12'' []) =
     Success 200 [(''demoData'', JStr ''Querying User 12 succeed!'')]"
  by (simp add: handle_get [where t = "'' 12''"] user_request_def execute_def getUser_input_id
      id_field_def trim_def is_space_def regex_digits_test_def is_digit_def parseInt10_def
      digit_of_def methodProviderMiddleware_def respond_def getUserHandler_def safeAsync_def
      returns_one_def get_prop_def getUser_output_def string_of_int_def string_of_nat.simps
      digit_char_def)

section \<open>Loading the configuration\<close>

text \<open>
  Claim C3. Parsing the environment against \<^verbatim>\<open>EnvFileSchema\<close> fails with a configuration
  error if and only if a present value cannot be coerced to its declared type: \<^verbatim>\<open>PORT\<close> is
  present and is not a number, or \<^verbatim>\<open>LOG_LEVEL\<close> is present and is none of silent, warn and
  debug (a boolean or string option accepts every present value). When the parse succeeds the
  configuration holds every option of the schema, in the schema's order, and every absent
  option has its default; with nothing set, the configuration is the defaults: \<^verbatim>\<open>PORT\<close> 8090,
  the feature and generator switches true, \<^verbatim>\<open>LOG_LEVEL\<close> debug and the three API strings.
\<close>

theorem loadConfig_fails_iff_uncoercible_else_defaults:
  "((\<exists>bad. loadConfig toNumber env = Inl (ConfigurationError bad)) \<longleftrightarrow>
      (\<exists>v. env ''PORT'' = Some v \<and> toNumber v = None) \<or>
      (\<exists>v. env ''LOG_LEVEL'' = Some v \<and> v \<notin> set [''silent'', ''warn'', ''debug''])) \<and>
   (loadConfig toNumber env = Inr envConfig \<longrightarrow>
      map fst envConfig = map fst EnvFileSchema \<and>
      (\<forall>(k, t, d) \<in> set EnvFileSchema. env k = None \<longrightarrow> map_of envConfig k = Some d)) \<and>
   loadConfig toNumber Map.empty =
     Inr [(''PORT'', VNumber 8090),
          (''CORS_ENABLED'', VBoolean True),
          (''COMPRESSION_ENABLED'', VBoolean True),
          (''UPLOAD_ENABLED'', VBoolean True),
          (''LOG_LEVEL'', VString ''debug''),
          (''LOG_COLORED'', VBoolean True),
          (''GENERATE_CLIENT'', VBoolean True),
          (''GENERATE_API_DOCS'', VBoolean True),
          (''API_VERSION'', VString ''0.0.1''),
          (''API_TITLE'', VString ''my-api''),
          (''API_SERVER_URL'', VString ''http://localhost:8090/v1'')]"
proof (intro conjI impI)
  show "(\<exists>bad. loadConfig toNumber env = Inl (ConfigurationError bad)) \<longleftrightarrow>
      (\<exists>v. env ''PORT'' = Some v \<and> toNumber v = None) \<or>
      (\<exists>v. env ''LOG_LEVEL'' = Some v \<and> v \<notin> set [''silent'', ''warn'', ''debug''])"
    by (simp only: loadConfig_Inl_iff schema_failure_iff)
next
  assume a: "loadConfig toNumber env = Inr envConfig"
  then have ok: "\<forall>e \<in> set EnvFileSchema. parse_entry toNumber env e \<noteq> None"
    and cfg: "envConfig =
      List.map_filter (\<lambda>e. map_option (Pair (fst e)) (parse_entry toNumber env e)) EnvFileSchema"
    by (simp_all add: loadConfig_Inr_iff)
  from ok show "map fst envConfig = map fst EnvFileSchema"
    unfolding cfg by (rule parsed_keys)
  show "\<forall>(k, t, d) \<in> set EnvFileSchema. env k = None \<longrightarrow> map_of envConfig k = Some d"
  proof (clarify)
    fix k t d
    assume m: "(k, t, d) \<in> set EnvFileSchema" and n: "env k = None"
    from n have "parse_entry toNumber env (k, t, d) = Some d" by (rule parse_entry_absent)
    from parsed_lookup [OF schema_distinct m this] show "map_of envConfig k = Some d"
      unfolding cfg by simp
  qed
next
  show "loadConfig toNumber Map.empty =
     Inr [(''PORT'', VNumber 8090),
          (''CORS_ENABLED'', VBoolean True),
          (''COMPRESSION_ENABLED'', VBoolean True),
          (''UPLOAD_ENABLED'', VBoolean True),
          (''LOG_LEVEL'', VString ''debug''),
          (''LOG_COLORED'', VBoolean True),
          (''GENERATE_CLIENT'', VBoolean True),
          (''GENERATE_API_DOCS'', VBoolean True),
          (''API_VERSION'', VString ''0.0.1''),
          (''API_TITLE'', VString ''my-api''),
          (''API_SERVER_URL'', VString ''http://localhost:8090/v1'')]"
    by (simp add: loadConfig_def EnvFileSchema_def parse_entry_def)
qed

theorem loadConfig_fails_iff_uncoercible_else_defaults_witness:
  "(\<exists>bad. loadConfig digits_toNumber sample_env = Inl (ConfigurationError bad)) \<and>
   (\<nexists>bad. loadConfig digits_toNumber port_env = Inl (ConfigurationError bad)) \<and>
   loadConfig digits_toNumber port_env =
     Inr [(''PORT'', VNumber 3000),
          (''CORS_ENABLED'', VBoolean True),
          (''COMPRESSION_ENABLED'', VBoolean True),
          (''UPLOAD_ENABLED'', VBoolean True),
          (''LOG_LEVEL'', VString ''debug''),
          (''LOG_COLORED'', VBoolean True),
          (''GENERATE_CLIENT'', VBoolean True),
          (''GENERATE_API_DOCS'', VBoolean True),
          (''API_VERSION'', VString ''0.0.1''),
          (''API_TITLE'', VString ''my-api''),
          (''API_SERVER_URL'', VString ''http://localhost:8090/v1'')]"
proof -
  note T1 = loadConfig_fails_iff_uncoercible_else_defaults
    [where toNumber = digits_toNumber and env = sample_env, THEN conjunct1]
  note T2 = loadConfig_fails_iff_uncoercible_else_defaults
    [where toNumber = digits_toNumber and env = port_env, THEN conjunct1]
  have a: "\<exists>bad. loadConfig digits_toNumber sample_env = Inl (ConfigurationError bad)"
    unfolding T1 by (simp add: sample_env_def digits_toNumber_abc)
  have b: "\<nexists>bad. loadConfig digits_toNumber port_env = Inl (ConfigurationError bad)"
    unfolding T2 by (simp add: port_env_def digits_toNumber_3000)
  have c: "loadConfig digits_toNumber port_env =
     Inr [(''PORT'', VNumber 3000),
          (''CORS_ENABLED'', VBoolean True),
          (''COMPRESSION_ENABLED'', VBoolean True),
          (''UPLOAD_ENABLED'', VBoolean True),
          (''LOG_LEVEL'', VString ''debug''),
          (''LOG_COLORED'', VBoolean True),
          (''GENERATE_CLIENT'', VBoolean True),
          (''GENERATE_API_DOCS'', VBoolean True),
          (''API_VERSION'', VString ''0.0.1''),
          (''API_TITLE'', VString ''my-api''),
          (''API_SERVER_URL'', VString ''http://localhost:8090/v1'')]"
    by (simp add: loadConfig_def EnvFileSchema_def parse_entry_def port_env_def digits_toNumber_3000)
  from a b c show ?thesis by simp
qed

section \<open>Unknown paths and unsupported methods\<close>

text \<open>
  Claim C4. For every request: when its path is not of the form \<^verbatim>\<open>/v1/user/<id>\<close>, the only
  path that leads to a leaf of the routing table, the response is not-found (404); when its
  path is of that form and its method is neither \<^verbatim>\<open>get\<close> nor \<^verbatim>\<open>post\<close>, the two methods the
  leaf holds, the response is method-not-allowed (405), not 404.
\<close>

theorem unknown_path_404_wrong_method_405:
  "((\<forall>t. req_path req \<noteq> user_path t) \<longrightarrow>
      handle_request mode ex req = Failure NotFound \<and> status_of (handle_request mode ex req) = 404) \<and>
   (req_path req = user_path t \<and> req_method req \<noteq> Get \<and> req_method req \<noteq> Post \<longrightarrow>
      handle_request mode ex req = Failure MethodNotAllowed \<and>
      status_of (handle_request mode ex req) = 405)"
proof (intro conjI impI)
  assume a: "\<forall>t. req_path req \<noteq> user_path t"
  then show nf: "handle_request mode ex req = Failure NotFound"
    by (simp add: handle_request_def resolve_other_path)
  then show "status_of (handle_request mode ex req) = 404" by simp
next
  assume a: "req_path req = user_path t \<and> req_method req \<noteq> Get \<and> req_method req \<noteq> Post"
  then show na: "handle_request mode ex req = Failure MethodNotAllowed"
    by (cases "req_method req") (simp_all add: handle_request_def resolve_user_path)
  then show "status_of (handle_request mode ex req) = 405" by simp
qed

theorem unknown_path_404_wrong_method_405_witness:
  "handle_request development returns_one
     \<lparr>req_method = Get, req_path = [''v1'', ''users''], req_query = [], req_body = []\<rparr> =
     Failure NotFound \<and>
   handle_request development returns_one (user_request Delete ''12'' []) = Failure MethodNotAllowed \<and>
   status_of (handle_request development returns_one (user_request Put ''12'' [])) = 405"
  using unknown_path_404_wrong_method_405
          [where req = "\<lparr>req_method = Get, req_path = [''v1'', ''users''], req_query = [], req_body = []\<rparr>"
             and ex = returns_one and mode = development]
    unknown_path_404_wrong_method_405
      [where req = "user_request Delete ''12'' []" and t = "''12''" and ex = returns_one and mode = development]
    unknown_path_404_wrong_method_405
      [where req = "user_request Put ''12'' []" and t = "''12''" and ex = returns_one and mode = development]
  by (simp add: user_request_def user_path_def)

section \<open>What the handler receives\<close>



section \<open>The scenarios of the users endpoints\<close>

text \<open>
  Claim C6. A \<^verbatim>\<open>GET /v1/user/<id>\<close> request whose id is a digit string of value above 100, as
  \<^verbatim>\<open>GET /v1/user/150\<close>, is answered 404 with the message "User not found", whatever the
  wrapped operation would do: the handler throws before it runs the operation.
\<close>

theorem get_user_above_100_not_found:
  "(js_gt (user_id input) 100 \<longrightarrow>
      getUserHandler ex input opts = Inl (HttpError 404 ''User not found'')) \<and>
   (req_method req = Get \<and> req_path req = user_path t \<and> t \<noteq> [] \<and> list_all is_digit t \<and>
    100 < digits_value 0 t \<longrightarrow>
      handle_request mode ex req = Failure (HandlerSignaledError 404 ''User not found'') \<and>
      status_of (handle_request mode ex req) = 404)"
proof (intro conjI impI)
  assume "js_gt (user_id input) 100"
  then show "getUserHandler ex input opts = Inl (HttpError 404 ''User not found'')"
    by (simp add: getUserHandler_def)
next
  assume a: "req_method req = Get \<and> req_path req = user_path t \<and> t \<noteq> [] \<and>
    list_all is_digit t \<and> 100 < digits_value 0 t"
  then have "id_field (JStr t) = Inr (Num (int (digits_value 0 t)))"
    using id_field_digits [of t] by (simp add: trim_digits)
  with a have "handle_request mode ex req =
      respond mode getUser_output
        (getUserHandler ex \<lparr>user_id = Num (int (digits_value 0 t))\<rparr> \<lparr>opt_method = Get\<rparr>)"
    by (simp add: handle_get_valid)
  with a show r: "handle_request mode ex req = Failure (HandlerSignaledError 404 ''User not found'')"
    by (simp add: getUserHandler_def respond_def public_message_exposed)
  then show "status_of (handle_request mode ex req) = 404" by simp
qed

theorem get_user_above_100_not_found_witness:
  "handle_request development returns_one (user_request Get ''150'' []) =
     Failure (HandlerSignaledError 404 ''User not found'') \<and>
   handle_request development throws_boom (user_request Get ''150'' []) =
     Failure (HandlerSignaledError 404 ''User not found'')"
proof -
  note T1 = get_user_above_100_not_found
    [where req = "user_request Get ''150'' []" and t = "''150''" and ex = returns_one and mode = development,
      THEN conjunct2, THEN mp]
  note T2 = get_user_above_100_not_found
    [where req = "user_request Get ''150'' []" and t = "''150''" and ex = throws_boom and mode = development,
      THEN conjunct2, THEN mp]
  have h: "req_method (user_request Get ''150'' []) = Get \<and>
      req_path (user_request Get ''150'' []) = user_path ''150'' \<and> ''150'' \<noteq> [] \<and>
      list_all is_digit ''150'' \<and> 100 < digits_value 0 ''150''"
    using digits_value_150 by (simp add: user_request_def is_digit_def del: digits_value.simps)
  show ?thesis
    using T1 [OF h, THEN conjunct1] T2 [OF h, THEN conjunct1] by (rule conjI)
qed

text \<open>
  Claim C7, as amended. The handler of \<^verbatim>\<open>updateUserEndpoint\<close> returns no value for any input,
  so no \<^verbatim>\<open>POST\<close> request is answered with a success; for an id that is not above 100 it
  throws 500 "Not implemented yet!", and so a \<^verbatim>\<open>POST /v1/user/<id>\<close> request with a
  digit-string id of value at most 100 and a non-empty \<^verbatim>\<open>name\<close> in its body, as
  \<^verbatim>\<open>POST /v1/user/12\<close> with \<^verbatim>\<open>{name: "John Doe"}\<close>, is answered 500. The message of the answer
  is "Not implemented yet!" when the process runs in development; in production it is the
  text of the status, "Internal Server Error".
\<close>

theorem update_user_always_500:
  "(\<exists>e. updateUserHandler input opts = Inl e) \<and>
   (\<not> js_gt (user_id input) 100 \<longrightarrow>
      updateUserHandler input opts = Inl (HttpError 500 ''Not implemented yet!'')) \<and>
   (req_method req = Post \<longrightarrow> (\<exists>f. handle_request mode ex req = Failure f)) \<and>
   (req_method req = Post \<and> req_path req = user_path t \<and> t \<noteq> [] \<and> list_all is_digit t \<and>
    digits_value 0 t \<le> 100 \<and> get_prop (req_body req) ''name'' = JStr nm \<and> nm \<noteq> [] \<longrightarrow>
      handle_request mode ex req =
        Failure (HandlerSignaledError 500
          (if mode = production then ''Internal Server Error'' else ''Not implemented yet!'')) \<and>
      status_of (handle_request mode ex req) = 500)"
proof (intro conjI impI)
  show "\<exists>e. updateUserHandler input opts = Inl e" by (rule updateUserHandler_fails)
next
  assume "\<not> js_gt (user_id input) 100"
  then show "updateUserHandler input opts = Inl (HttpError 500 ''Not implemented yet!'')"
    by (simp add: updateUserHandler_def)
next
  assume "req_method req = Post"
  then show "\<exists>f. handle_request mode ex req = Failure f" by (rule post_never_succeeds)
next
  assume a: "req_method req = Post \<and> req_path req = user_path t \<and> t \<noteq> [] \<and>
    list_all is_digit t \<and> digits_value 0 t \<le> 100 \<and>
    get_prop (req_body req) ''name'' = JStr nm \<and> nm \<noteq> []"
  then show r: "handle_request mode ex req =
      Failure (HandlerSignaledError 500
        (if mode = production then ''Internal Server Error'' else ''Not implemented yet!''))"
    using post_not_implemented [where req = req and t = t and nm = nm] by simp
  then show "status_of (handle_request mode ex req) = 500" by simp
qed

theorem update_user_always_500_witness:
  "handle_request development returns_one (user_request Post ''12'' [(''name'', JStr ''John Doe'')]) =
     Failure (HandlerSignaledError 500 ''Not implemented yet!'')"
proof -
  note T = update_user_always_500
    [where req = "user_request Post ''12'' [(''name'', JStr ''John Doe'')]" and t = "''12''"
       and nm = "''John Doe''" and ex = returns_one and mode = development,
     THEN conjunct2, THEN conjunct2, THEN conjunct2, THEN mp]
  have h: "req_method (user_request Post ''12'' [(''name'', JStr ''John Doe'')]) = Post \<and>
      req_path (user_request Post ''12'' [(''name'', JStr ''John Doe'')]) = user_path ''12'' \<and>
      ''12'' \<noteq> [] \<and> list_all is_digit ''12'' \<and> digits_value 0 ''12'' \<le> 100 \<and>
      get_prop (req_body (user_request Post ''12'' [(''name'', JStr ''John Doe'')])) ''name'' =
        JStr ''John Doe'' \<and> ''John Doe'' \<noteq> []"
    using digits_value_12
    by (simp add: user_request_def is_digit_def get_prop_hd del: digits_value.simps)
  show ?thesis using T [OF h, THEN conjunct1] by simp
qed

text \<open>
  The claim as stated gives the message "Not implemented yet!" for every such request. In
  production the answer to \<^verbatim>\<open>POST /v1/user/12\<close> with \<^verbatim>\<open>{name: "John Doe"}\<close> carries the text
  of the status instead.
\<close>

theorem update_user_production_message:
  "handle_request production returns_one (user_request Post ''12'' [(''name'', JStr ''John Doe'')]) =
     Failure (HandlerSignaledError 500 ''Internal Server Error'') \<and>
   handle_request production returns_one (user_request Post ''12'' [(''name'', JStr ''John Doe'')]) \<noteq>
     Failure (HandlerSignaledError 500 ''Not implemented yet!'')"
proof -
  have "handle_request production returns_one
      (user_request Post ''12'' [(''name'', JStr ''John Doe'')]) =
      Failure (HandlerSignaledError 500 ''Internal Server Error'')"
    using digits_value_12
      post_not_implemented
        [where req = "user_request Post ''12'' [(''name'', JStr ''John Doe'')]" and t = "''12''"
           and nm = "''John Doe''" and ex = returns_one and mode = production]
    by (simp add: user_request_def is_digit_def get_prop_hd del: digits_value.simps)
  then show ?thesis by simp
qed

text \<open>
  Claim C8. A \<^verbatim>\<open>GET /v1/user/<n>\<close> request with \<open>n\<close> at most 100, as \<^verbatim>\<open>GET /v1/user/12\<close>, in
  which the wrapped operation returns normally is answered 200 with the body
  \<^verbatim>\<open>{demoData: "Querying User <n> succeed!"}\<close>.
\<close>

theorem get_user_succeeds_without_fault:
  "req_method req = Get \<and> req_path req = user_path (string_of_nat n) \<and> n \<le> 100 \<and>
   ex () = Returns v \<longrightarrow>
     handle_request mode ex req =
       Success 200 [(''demoData'', JStr (''Querying User '' @ string_of_nat n @ '' succeed!''))] \<and>
     status_of (handle_request mode ex req) = 200"
proof (intro impI)
  assume a: "req_method req = Get \<and> req_path req = user_path (string_of_nat n) \<and> n \<le> 100 \<and>
    ex () = Returns v"
  then have "handle_request mode ex req =
      respond mode getUser_output (getUserHandler ex \<lparr>user_id = Num (int n)\<rparr> \<lparr>opt_method = Get\<rparr>)"
    by (simp add: handle_get_valid id_field_string_of_nat)
  moreover from a have "getUserHandler ex \<lparr>user_id = Num (int n)\<rparr> \<lparr>opt_method = Get\<rparr> =
      Inr \<lparr>demoData = ''Querying User '' @ string_of_nat n @ '' succeed!''\<rparr>"
    by (simp add: getUserHandler_def safeAsync_def get_prop_def string_of_int_def)
  ultimately have r: "handle_request mode ex req =
      Success 200 [(''demoData'', JStr (''Querying User '' @ string_of_nat n @ '' succeed!''))]"
    by (simp add: respond_def getUser_output_def)
  then show "handle_request mode ex req =
       Success 200 [(''demoData'', JStr (''Querying User '' @ string_of_nat n @ '' succeed!''))] \<and>
     status_of (handle_request mode ex req) = 200" by simp
qed

theorem get_user_succeeds_without_fault_witness:
  "handle_request development returns_one (user_request Get ''12'' []) =
     Success 200 [(''demoData'', JStr ''Querying User 12 succeed!'')]"
proof -
  note T = get_user_succeeds_without_fault
    [where req = "user_request Get (string_of_nat 12) []" and n = 12 and ex = returns_one and mode = development
       and v = "JNumber (Num 1)", THEN mp]
  have h: "req_method (user_request Get (string_of_nat 12) []) = Get \<and>
      req_path (user_request Get (string_of_nat 12) []) = user_path (string_of_nat 12) \<and>
      (12::nat) \<le> 100 \<and> returns_one () = Returns (JNumber (Num 1))"
    by (simp add: user_request_def returns_one_def)
  show ?thesis using T [OF h, THEN conjunct1] by (simp add: string_of_nat_12)
qed

section \<open>Start-up\<close>

text \<open>
  Claim C9. \<^verbatim>\<open>NODE_ENV\<close> parses if and only if it is exactly "production" or "development";
  with any other value, or none, start-up ends before the server is created, and with one of
  the two and a configuration that loads it does not end there. \<^verbatim>\<open>NODE_ENV\<close> is not an
  option of the environment schema.
\<close>

theorem node_env_production_or_development:
  "((\<exists>e. Environment_parse v = Inr e) \<longleftrightarrow> v = Some ''production'' \<or> v = Some ''development'') \<and>
   (env ''NODE_ENV'' \<noteq> Some ''production'' \<and> env ''NODE_ENV'' \<noteq> Some ''development'' \<longrightarrow>
      bootstrap toNumber env = Crashed) \<and>
   (loadConfig toNumber env = Inr envConfig \<and>
    (env ''NODE_ENV'' = Some ''production'' \<or> env ''NODE_ENV'' = Some ''development'') \<longrightarrow>
      bootstrap toNumber env \<noteq> Crashed) \<and>
   ''NODE_ENV'' \<notin> set (map fst EnvFileSchema)"
  by (auto simp: Environment_parse_def bootstrap_def EnvFileSchema_def Let_def)

theorem node_env_production_or_development_witness:
  "bootstrap digits_toNumber test_env = Crashed \<and> bootstrap digits_toNumber Map.empty = Crashed"
proof -
  have h1: "test_env ''NODE_ENV'' \<noteq> Some ''production'' \<and>
      test_env ''NODE_ENV'' \<noteq> Some ''development''"
    by (simp add: test_env_def)
  have h2: "Map.empty ''NODE_ENV'' \<noteq> Some ''production'' \<and>
      Map.empty ''NODE_ENV'' \<noteq> Some ''development''"
    by simp
  show ?thesis
    using node_env_production_or_development
        [where env = test_env and toNumber = digits_toNumber,
          THEN conjunct2, THEN conjunct1, THEN mp, OF h1]
      node_env_production_or_development
        [where env = Map.empty and toNumber = digits_toNumber,
          THEN conjunct2, THEN conjunct1, THEN mp, OF h2]
    by (rule conjI)
qed

section \<open>A fault of the wrapped operation\<close>

text \<open>
  Claim C10. When the operation wrapped inside the handler of \<^verbatim>\<open>getUserEndpoint\<close> throws, a
  \<^verbatim>\<open>GET /v1/user/<n>\<close> request with \<open>n\<close> at most 100 is still answered 200, with the body
  \<^verbatim>\<open>{demoData: "Querying User <n> failed safely: <message>"}\<close>: the fault is not answered
  with an error.
\<close>

theorem get_user_fault_answered_200:
  "req_method req = Get \<and> req_path req = user_path (string_of_nat n) \<and> n \<le> 100 \<and>
   ex () = Throws message \<longrightarrow>
     handle_request mode ex req =
       Success 200
         [(''demoData'',
           JStr (''Querying User '' @ string_of_nat n @ '' failed safely: '' @ message))] \<and>
     status_of (handle_request mode ex req) = 200"
proof (intro impI)
  assume a: "req_method req = Get \<and> req_path req = user_path (string_of_nat n) \<and> n \<le> 100 \<and>
    ex () = Throws message"
  then have "handle_request mode ex req =
      respond mode getUser_output (getUserHandler ex \<lparr>user_id = Num (int n)\<rparr> \<lparr>opt_method = Get\<rparr>)"
    by (simp add: handle_get_valid id_field_string_of_nat)
  moreover from a have "getUserHandler ex \<lparr>user_id = Num (int n)\<rparr> \<lparr>opt_method = Get\<rparr> =
      Inr \<lparr>demoData = ''Querying User '' @ string_of_nat n @ '' failed safely: '' @ message\<rparr>"
    by (simp add: getUserHandler_def safeAsync_def get_prop_def string_of_int_def)
  ultimately have r: "handle_request mode ex req =
      Success 200
        [(''demoData'',
          JStr (''Querying User '' @ string_of_nat n @ '' failed safely: '' @ message))]"
    by (simp add: respond_def getUser_output_def)
  then show "handle_request mode ex req =
       Success 200
         [(''demoData'',
           JStr (''Querying User '' @ string_of_nat n @ '' failed safely: '' @ message))] \<and>
     status_of (handle_request mode ex req) = 200" by simp
qed

theorem get_user_fault_answered_200_witness:
  "handle_request development throws_boom (user_request Get ''12'' []) =
     Success 200 [(''demoData'', JStr ''Querying User 12 failed safely: boom'')]"
proof -
  note T = get_user_fault_answered_200
    [where req = "user_request Get (string_of_nat 12) []" and n = 12 and ex = throws_boom and mode = development
       and message = "''boom''", THEN mp]
  have h: "req_method (user_request Get (string_of_nat 12) []) = Get \<and>
      req_path (user_request Get (string_of_nat 12) []) = user_path (string_of_nat 12) \<and>
      (12::nat) \<le> 100 \<and> throws_boom () = Throws ''boom''"
    by (simp add: user_request_def throws_boom_def)
  show ?thesis using T [OF h, THEN conjunct1] by (simp add: string_of_nat_12)
qed

end
